theory Spec2Isabelle
  imports Main "HOL-Library.Sublist" "HOL-Library.AList"
begin

section \<open>Strings\<close>

text \<open>
  The worker tests URLs with the JavaScript string methods \<^verbatim>\<open>startsWith\<close>,
  \<^verbatim>\<open>endsWith\<close> and \<^verbatim>\<open>includes\<close>. A string is a list of characters;
  \<^verbatim>\<open>s.includes(sub)\<close> holds when \<open>sub\<close> occurs in \<open>s\<close> as a contiguous block.
\<close>

definition startsWith :: "string \<Rightarrow> string \<Rightarrow> bool" where
  "startsWith s p = prefix p s"

definition endsWith :: "string \<Rightarrow> string \<Rightarrow> bool" where
  "endsWith s p = prefix (rev p) (rev s)"

fun str_includes :: "string \<Rightarrow> string \<Rightarrow> bool" where
  "str_includes [] sub = (sub = [])"
| "str_includes (c # cs) sub = (prefix sub (c # cs) \<or> str_includes cs sub)"

section \<open>Requests, responses and the platform\<close>

text \<open>
  A parsed URL, as \<^verbatim>\<open>new URL(request.url)\<close> gives it. Every request a service
  worker sees has a hierarchical URL, which serialises as
  \<^verbatim>\<open>protocol // hostname [: port] pathname search hash\<close>.
\<close>

record url =
  protocol :: string
  hostname :: string
  port :: string
  pathname :: string
  search :: string
  hash :: string

definition href :: "url \<Rightarrow> string" where
  "href u = protocol u @ ''//'' @ hostname u @ (if port u = [] then [] else '':'' @ port u)
              @ pathname u @ search u @ hash u"

record request =
  req_method :: string
  url :: url
  accept :: "string option"

text \<open>
  The caches and the network identify a request by its URL without the fragment.
\<close>

definition request_key :: "request \<Rightarrow> string" where
  "request_key req = href ((url req)\<lparr>hash := []\<rparr>)"

record response =
  status :: nat
  body :: string

definition ok :: "response \<Rightarrow> bool" where
  "ok r = (200 \<le> status r \<and> status r \<le> 299)"

datatype js_error = TypeError | ReferenceError

text \<open>
  What the worker is given by its host, as parameters: the outcome of a network fetch for
  an absolute URL (a rejection or a response); the parser that resolves a URL string
  written in the script (\<^verbatim>\<open>'/index.html'\<close>) against the worker's location, to the
  key the caches use for it; and the error, if any, with which the cache refuses to store
  a response under a key (no room left, a \<^verbatim>\<open>Vary: *\<close> header, a URL that is not
  http). \<^verbatim>\<open>caches.open\<close>, \<^verbatim>\<open>cache.match\<close>, \<^verbatim>\<open>caches.match\<close>,
  \<^verbatim>\<open>caches.keys\<close> and \<^verbatim>\<open>caches.delete\<close> are taken to succeed.
\<close>

record platform =
  fetch :: "string \<Rightarrow> js_error + response"
  resolve :: "string \<Rightarrow> string"
  storage_error :: "string \<Rightarrow> response \<Rightarrow> js_error option"

text \<open>
  \<^verbatim>\<open>cache.put\<close> rejects with a TypeError for a partial response (status 206), and
  otherwise when the storage refuses. A rejected put stores nothing.
\<close>

definition put_rejection :: "platform \<Rightarrow> string \<Rightarrow> response \<Rightarrow> js_error option" where
  "put_rejection plat k r = (if status r = 206 then Some TypeError else storage_error plat k r)"

section \<open>Cache storage\<close>

text \<open>
  A cache maps request URLs to responses; the cache storage maps generation names to
  caches, in creation order (\<^verbatim>\<open>caches.keys()\<close> and \<^verbatim>\<open>caches.match\<close>
  follow that order).
\<close>

type_synonym cache = "(string \<times> response) list"
type_synonym cache_storage = "(string \<times> cache) list"

definition caches_keys :: "cache_storage \<Rightarrow> string list" where
  "caches_keys cs = map fst cs"

definition caches_open :: "string \<Rightarrow> cache_storage \<Rightarrow> cache_storage" where
  "caches_open name cs = (if name \<in> set (caches_keys cs) then cs else cs @ [(name, [])])"

definition caches_delete :: "string \<Rightarrow> cache_storage \<Rightarrow> cache_storage" where
  "caches_delete name cs = AList.delete name cs"

definition cache_of :: "string \<Rightarrow> cache_storage \<Rightarrow> cache" where
  "cache_of name cs = (case map_of cs name of None \<Rightarrow> [] | Some c \<Rightarrow> c)"

definition cache_match :: "cache \<Rightarrow> string \<Rightarrow> response option" where
  "cache_match c k = map_of c k"

definition cache_put :: "string \<Rightarrow> response \<Rightarrow> cache \<Rightarrow> cache" where
  "cache_put k r c = AList.update k r c"

text \<open>\<^verbatim>\<open>(await caches.open(name)).put(k, r)\<close> on the storage, when the put is accepted.\<close>

definition put_in :: "string \<Rightarrow> string \<Rightarrow> response \<Rightarrow> cache_storage \<Rightarrow> cache_storage" where
  "put_in name k r cs =
     (let cs1 = caches_open name cs in AList.update name (cache_put k r (cache_of name cs1)) cs1)"

text \<open>\<^verbatim>\<open>caches.match(k)\<close>: the first generation, in creation order, that holds \<open>k\<close>.\<close>

fun caches_match :: "cache_storage \<Rightarrow> string \<Rightarrow> response option" where
  "caches_match [] k = None"
| "caches_match ((n, c) # cs) k =
     (case cache_match c k of Some r \<Rightarrow> Some r | None \<Rightarrow> caches_match cs k)"

text \<open>
  \<^verbatim>\<open>cache.addAll(urls)\<close> is the platform's bulk populate: it fetches every URL, rejects
  when a fetch rejects, answers with a status outside 200..299, or brings a response the
  cache refuses (a 206 among them), and only when all have arrived stores them.
\<close>

fun fetch_all :: "platform \<Rightarrow> string list \<Rightarrow> js_error + (string \<times> response) list" where
  "fetch_all plat [] = Inr []"
| "fetch_all plat (u # us) =
     (case fetch plat (resolve plat u) of
        Inl e \<Rightarrow> Inl e
      | Inr r \<Rightarrow>
          if ok r then
            (case put_rejection plat (resolve plat u) r of
               Some e \<Rightarrow> Inl e
             | None \<Rightarrow>
                 (case fetch_all plat us of
                    Inl e \<Rightarrow> Inl e
                  | Inr rs \<Rightarrow> Inr ((resolve plat u, r) # rs)))
          else Inl TypeError)"

text \<open>
  A manifest URL whose fetch rejects, or answers with a status outside 200..299, or with
  a response the cache refuses.
\<close>

definition fetch_fails :: "platform \<Rightarrow> string \<Rightarrow> bool" where
  "fetch_fails plat u =
     (case fetch plat (resolve plat u) of
        Inl e \<Rightarrow> True
      | Inr r \<Rightarrow> if ok r then put_rejection plat (resolve plat u) r \<noteq> None else True)"

definition addAll :: "platform \<Rightarrow> string list \<Rightarrow> cache \<Rightarrow> js_error + cache" where
  "addAll plat us c =
     (case fetch_all plat us of
        Inl e \<Rightarrow> Inl e
      | Inr rs \<Rightarrow> Inr (foldl (\<lambda>c' (k, r). cache_put k r c') c rs))"

section \<open>The worker (version 3.0.0)\<close>

definition CACHE_NAME :: string where
  "CACHE_NAME = ''offline-ai-v3''"

definition CORE_CACHE :: string where
  "CORE_CACHE = ''offline-ai-core-v1''"

definition CORE_ASSETS :: "string list" where
  "CORE_ASSETS =
     [''/'',
      ''/index.html'',
      ''/manifest.json'',
      ''/app.js'',
      ''https://cdn.tailwindcss.com'',
      ''https://fonts.googleapis.com/css2?family=Inter:wght@400;500;600;700&display=swap'',
      ''https://fonts.gstatic.com/s/inter/v13/UcCO3FwrK3iLTeHuS_fvQtMwCp50KnMw2boKoduKmMEVuLyfAZJhiI2B.woff2'',
      ''https://cdn.jsdelivr.net/npm/@mlc-ai/web-llm@0.2.38/+esm'']"

definition MODEL_CACHE_name :: string where
  "MODEL_CACHE_name = ''mlc-model-cache''"

text \<open>The worker's state: the cache storage, and what it has told its host.\<close>

record sw_state =
  caches :: cache_storage
  skipWaiting_called :: bool
  clients_claimed :: bool
  console :: "string list"

subsection \<open>Install and activate\<close>

definition install :: "platform \<Rightarrow> sw_state \<Rightarrow> (js_error + unit) \<times> sw_state" where
  "install plat st =
     (let cs1 = caches_open CORE_CACHE (caches st) in
      case addAll plat CORE_ASSETS (cache_of CORE_CACHE cs1) of
        Inl e \<Rightarrow> (Inl e, st\<lparr>caches := cs1\<rparr>)
      | Inr c \<Rightarrow>
          (Inr (),
           st\<lparr>caches := AList.update CORE_CACHE c cs1,
              skipWaiting_called := True,
              console := console st @ [''[SW] Core assets cached'']\<rparr>))"

definition is_old :: "string \<Rightarrow> bool" where
  "is_old key = (key \<noteq> CACHE_NAME \<and> key \<noteq> CORE_CACHE)"

definition delete_old :: "cache_storage \<Rightarrow> string \<Rightarrow> cache_storage" where
  "delete_old cs key = (if is_old key then caches_delete key cs else cs)"

definition activate :: "sw_state \<Rightarrow> sw_state" where
  "activate st =
     (let cacheKeys = caches_keys (caches st) in
      st\<lparr>caches := foldl delete_old (caches st) cacheKeys,
         clients_claimed := True,
         console := console st
           @ map (\<lambda>key. ''[SW] Deleting old cache: '' @ key) (filter is_old cacheKeys)
           @ [''[SW] Activated and ready'']\<rparr>)"

text \<open>
  The host runs the two phases in order: the promise given to \<^verbatim>\<open>waitUntil\<close> in the
  install listener decides whether the worker goes on to activate or is discarded.
\<close>

datatype worker_phase = Activated | Redundant

definition install_then_activate :: "platform \<Rightarrow> sw_state \<Rightarrow> worker_phase \<times> sw_state" where
  "install_then_activate plat st =
     (case install plat st of
        (Inl e, st1) \<Rightarrow> (Redundant, st1)
      | (Inr u, st1) \<Rightarrow> (Activated, activate st1))"


subsection \<open>Cache strategies\<close>

text \<open>
  Each strategy takes the request and the cache storage and gives back what its promise
  settles to (a rejection or a response) and the storage it leaves. The request is keyed
  by its URL; the strategies are reached for \<^verbatim>\<open>GET\<close> requests only.

  \<^verbatim>\<open>cacheFirst\<close> and \<^verbatim>\<open>staleWhileRevalidate\<close> are top-level functions
  whose only parameter is \<^verbatim>\<open>request\<close>. The identifier \<^verbatim>\<open>event\<close> they use
  is bound in the listeners alone (it is the listeners' parameter); the script declares
  no such variable and the worker's global scope has none. So evaluating
  \<^verbatim>\<open>event.waitUntil(...)\<close> in them raises a ReferenceError, before the argument
  (the background refresh) is evaluated.
\<close>

definition cacheFirst ::
  "platform \<Rightarrow> request \<Rightarrow> cache_storage \<Rightarrow> (js_error + response) \<times> cache_storage" where
  "cacheFirst plat req cs =
     (let cs1 = caches_open CACHE_NAME cs in
      case cache_match (cache_of CACHE_NAME cs1) (request_key req) of
        Some cachedResponse \<Rightarrow> (Inl ReferenceError, cs1)
      | None \<Rightarrow>
          (case fetch plat (request_key req) of
             Inl e \<Rightarrow> (Inl e, cs1)
           | Inr resp \<Rightarrow>
               if ok resp then
                 (case put_rejection plat (request_key req) resp of
                    Some e \<Rightarrow> (Inl e, cs1)
                  | None \<Rightarrow> (Inr resp, put_in CACHE_NAME (request_key req) resp cs1))
               else (Inr resp, cs1)))"

text \<open>
  In \<^verbatim>\<open>networkFirst\<close> the put stands inside the \<^verbatim>\<open>try\<close>: a rejected put is caught
  like a rejected fetch, after the cache has been opened.
\<close>

definition networkFirst ::
  "platform \<Rightarrow> request \<Rightarrow> cache_storage \<Rightarrow> (js_error + response) \<times> cache_storage" where
  "networkFirst plat req cs =
     (case fetch plat (request_key req) of
        Inr resp \<Rightarrow>
          if ok resp then
            (let cs1 = caches_open CACHE_NAME cs in
             case put_rejection plat (request_key req) resp of
               None \<Rightarrow> (Inr resp, put_in CACHE_NAME (request_key req) resp cs)
             | Some error \<Rightarrow>
                 (case caches_match cs1 (request_key req) of
                    Some cachedResponse \<Rightarrow> (Inr cachedResponse, cs1)
                  | None \<Rightarrow> (Inl error, cs1)))
          else (Inr resp, cs)
      | Inl error \<Rightarrow>
          (case caches_match cs (request_key req) of
             Some cachedResponse \<Rightarrow> (Inr cachedResponse, cs)
           | None \<Rightarrow> (Inl error, cs)))"

definition staleWhileRevalidate ::
  "platform \<Rightarrow> request \<Rightarrow> cache_storage \<Rightarrow> (js_error + response) \<times> cache_storage" where
  "staleWhileRevalidate plat req cs =
     (let cs1 = caches_open CACHE_NAME cs in (Inl ReferenceError, cs1))"

subsection \<open>The fetch listener\<close>

definition isCoreAsset :: "url \<Rightarrow> bool" where
  "isCoreAsset u = list_ex (\<lambda>asset. str_includes (href u) asset) CORE_ASSETS"

definition cdnDomains :: "string list" where
  "cdnDomains =
     [''cdn.tailwindcss.com'', ''fonts.googleapis.com'', ''fonts.gstatic.com'',
      ''cdn.jsdelivr.net'']"

definition isCDNAsset :: "url \<Rightarrow> bool" where
  "isCDNAsset u = list_ex (\<lambda>domain. str_includes (hostname u) domain) cdnDomains"

text \<open>\<^verbatim>\<open>request.headers.get('accept')?.includes('text/html')\<close>, read as a condition.\<close>

definition accepts_html :: "request \<Rightarrow> bool" where
  "accepts_html req = (case accept req of None \<Rightarrow> False | Some a \<Rightarrow> str_includes a ''text/html'')"

text \<open>The four \<^verbatim>\<open>return await\<close> lines of the listener's \<^verbatim>\<open>try\<close> block, in order.\<close>

datatype branch = ApiNetworkFirst | CoreCacheFirst | CdnStaleWhileRevalidate | ElseNetworkFirst

definition dispatch_branch :: "request \<Rightarrow> branch" where
  "dispatch_branch req =
     (if str_includes (pathname (url req)) ''/api/'' then ApiNetworkFirst
      else if isCoreAsset (url req) \<or> accepts_html req then CoreCacheFirst
      else if isCDNAsset (url req) then CdnStaleWhileRevalidate
      else ElseNetworkFirst)"

fun run_branch ::
  "branch \<Rightarrow> platform \<Rightarrow> request \<Rightarrow> cache_storage \<Rightarrow> (js_error + response) \<times> cache_storage" where
  "run_branch ApiNetworkFirst plat req cs = networkFirst plat req cs"
| "run_branch CoreCacheFirst plat req cs = cacheFirst plat req cs"
| "run_branch CdnStaleWhileRevalidate plat req cs = staleWhileRevalidate plat req cs"
| "run_branch ElseNetworkFirst plat req cs = networkFirst plat req cs"

definition dispatch ::
  "platform \<Rightarrow> request \<Rightarrow> cache_storage \<Rightarrow> (js_error + response) \<times> cache_storage" where
  "dispatch plat req cs = run_branch (dispatch_branch req) plat req cs"

text \<open>
  What a fetch listener does with a request: it returns without answering (the browser
  performs the request itself), or it hands \<^verbatim>\<open>respondWith\<close> a promise, which
  resolves (to a response, or to \<^verbatim>\<open>undefined\<close> when \<^verbatim>\<open>caches.match\<close> finds
  nothing) or rejects.
\<close>

datatype fetch_result = NotIntercepted | Resolved "response option" | Rejected js_error

text \<open>The \<^verbatim>\<open>try\<close>/\<^verbatim>\<open>catch\<close> handed to \<^verbatim>\<open>respondWith\<close>.\<close>

definition respond :: "platform \<Rightarrow> request \<Rightarrow> sw_state \<Rightarrow> fetch_result \<times> sw_state" where
  "respond plat req st =
     (case dispatch plat req (caches st) of
        (Inr resp, cs) \<Rightarrow> (Resolved (Some resp), st\<lparr>caches := cs\<rparr>)
      | (Inl error, cs) \<Rightarrow>
          (let st1 = st\<lparr>caches := cs, console := console st @ [''[SW] Fetch failed'']\<rparr> in
           if accepts_html req
           then (Resolved (caches_match cs (resolve plat ''/index.html'')), st1)
           else (Rejected error, st1)))"

definition fetch_handler :: "platform \<Rightarrow> request \<Rightarrow> sw_state \<Rightarrow> fetch_result \<times> sw_state" where
  "fetch_handler plat req st =
     (if req_method req \<noteq> ''GET'' then (NotIntercepted, st)
      else if startsWith (href (url req)) ''chrome-extension://'' then (NotIntercepted, st)
      else if str_includes (href (url req)) ''/dist/models/'' then (NotIntercepted, st)
      else respond plat req st)"

subsection \<open>The message listener\<close>

record message =
  msg_type :: string
  msg_url :: string

text \<open>
  In \<^verbatim>\<open>cacheModel\<close> the fetch, the opening of the cache and the put stand in one
  \<^verbatim>\<open>try\<close>, in that order: a rejected put is logged like a rejected fetch, but the
  cache has been opened by then.
\<close>

definition cacheModel :: "platform \<Rightarrow> string \<Rightarrow> sw_state \<Rightarrow> sw_state" where
  "cacheModel plat u st =
     (case fetch plat (resolve plat u) of
        Inr resp \<Rightarrow>
          (case put_rejection plat (resolve plat u) resp of
             None \<Rightarrow>
               st\<lparr>caches := put_in MODEL_CACHE_name (resolve plat u) resp (caches st),
                  console := console st @ [''[SW] Model cached: '' @ u]\<rparr>
           | Some error \<Rightarrow>
               st\<lparr>caches := caches_open MODEL_CACHE_name (caches st),
                  console := console st @ [''[SW] Failed to cache model'']\<rparr>)
      | Inl error \<Rightarrow> st\<lparr>console := console st @ [''[SW] Failed to cache model'']\<rparr>)"

definition message_handler :: "platform \<Rightarrow> message option \<Rightarrow> sw_state \<Rightarrow> sw_state" where
  "message_handler plat data st =
     (case data of
        None \<Rightarrow> st
      | Some m \<Rightarrow> if msg_type m = ''CACHE_MODEL'' then cacheModel plat (msg_url m) st else st)"

section \<open>The first worker (cache neurolocal-v2)\<close>

text \<open>
  The oldest of the three workers of the repository has its own fetch listener: it
  stands aside for model hosts and binary extensions, and answers everything else from
  the caches, then the network, storing nothing. A cache lookup finds nothing for a
  request that is not a \<^verbatim>\<open>GET\<close>.
\<close>

definition fetch_handler_v1 :: "platform \<Rightarrow> request \<Rightarrow> cache_storage \<Rightarrow> fetch_result" where
  "fetch_handler_v1 plat req cs =
     (if str_includes (hostname (url req)) ''huggingface''
         \<or> str_includes (hostname (url req)) ''mlc-ai''
         \<or> endsWith (pathname (url req)) ''.bin''
         \<or> endsWith (pathname (url req)) ''.wasm''
      then NotIntercepted
      else
        (case (if req_method req = ''GET'' then caches_match cs (request_key req) else None) of
           Some cachedResponse \<Rightarrow> Resolved (Some cachedResponse)
         | None \<Rightarrow>
             (case fetch plat (request_key req) of
                Inl e \<Rightarrow> Rejected e
              | Inr networkResponse \<Rightarrow> Resolved (Some networkResponse))))"

section \<open>The request classifier as the specification words it\<close>

text \<open>
  The specification's first rule: bypass when the method is not \<^verbatim>\<open>GET\<close>, or the host
  is a model host, or the path ends in a large-binary extension, or the path contains
  the models directory.
\<close>

definition spec_bypass :: "request \<Rightarrow> bool" where
  "spec_bypass req =
     (if req_method req = ''GET''
      then (str_includes (hostname (url req)) ''huggingface''
              \<or> str_includes (hostname (url req)) ''mlc-ai'')
           \<or> (endsWith (pathname (url req)) ''.bin'' \<or> endsWith (pathname (url req)) ''.wasm'')
           \<or> str_includes (pathname (url req)) ''/dist/models/''
      else True)"

text \<open>
  The cache names the worker configures: \<^verbatim>\<open>CACHE_NAME\<close>, \<^verbatim>\<open>CORE_CACHE\<close> and
  \<^verbatim>\<open>MODEL_CACHE_CONFIG.name\<close>.
\<close>

definition configured_cache_names :: "string list" where
  "configured_cache_names = [CACHE_NAME, CORE_CACHE, MODEL_CACHE_name]"

section \<open>Sample inputs\<close>

definition app_resolve :: "string \<Rightarrow> string" where
  "app_resolve s = (if startsWith s ''/'' then ''https://app.example'' @ s else s)"

definition fresh :: response where
  "fresh = \<lparr>status = 200, body = ''fresh''\<rparr>"

definition stale :: response where
  "stale = \<lparr>status = 200, body = ''stale''\<rparr>"

definition not_found :: response where
  "not_found = \<lparr>status = 404, body = ''not found''\<rparr>"

definition partial_content :: response where
  "partial_content = \<lparr>status = 206, body = ''part''\<rparr>"

definition online :: platform where
  "online =
     \<lparr>fetch = (\<lambda>k. Inr fresh), resolve = app_resolve, storage_error = (\<lambda>k r. None)\<rparr>"

definition offline :: platform where
  "offline =
     \<lparr>fetch = (\<lambda>k. Inl TypeError), resolve = app_resolve, storage_error = (\<lambda>k r. None)\<rparr>"

definition missing :: platform where
  "missing =
     \<lparr>fetch = (\<lambda>k. Inr not_found), resolve = app_resolve, storage_error = (\<lambda>k r. None)\<rparr>"

definition ranged :: platform where
  "ranged =
     \<lparr>fetch = (\<lambda>k. Inr partial_content), resolve = app_resolve,
      storage_error = (\<lambda>k r. None)\<rparr>"

definition one_missing :: platform where
  "one_missing =
     \<lparr>fetch = (\<lambda>k. if k = ''https://app.example/app.js'' then Inr not_found else Inr fresh),
      resolve = app_resolve, storage_error = (\<lambda>k r. None)\<rparr>"

definition app_url :: "string \<Rightarrow> url" where
  "app_url p =
     \<lparr>protocol = ''https:'', hostname = ''app.example'', port = [], pathname = p,
      search = [], hash = []\<rparr>"

definition page_request :: request where
  "page_request = \<lparr>req_method = ''GET'', url = app_url ''/about.html'', accept = Some ''text/html,*/*''\<rparr>"

definition api_request :: request where
  "api_request = \<lparr>req_method = ''GET'', url = app_url ''/api/status'', accept = Some ''application/json''\<rparr>"

definition icon_request :: request where
  "icon_request = \<lparr>req_method = ''GET'', url = app_url ''/icons/icon-192.png'', accept = Some ''image/png''\<rparr>"

definition post_request :: request where
  "post_request = \<lparr>req_method = ''POST'', url = app_url ''/api/chat'', accept = None\<rparr>"

definition weights_request :: request where
  "weights_request =
     \<lparr>req_method = ''GET'',
      url = \<lparr>protocol = ''https:'', hostname = ''huggingface.co'', port = [],
             pathname = ''/mlc-ai/model.bin'', search = [], hash = []\<rparr>,
      accept = None\<rparr>"

definition cdn_request :: request where
  "cdn_request =
     \<lparr>req_method = ''GET'',
      url = \<lparr>protocol = ''https:'', hostname = ''cdn.jsdelivr.net'', port = [],
             pathname = ''/npm/marked/marked.min.js'', search = [], hash = []\<rparr>,
      accept = Some ''*/*''\<rparr>"

definition cdn_cached :: cache_storage where
  "cdn_cached =
     [(''offline-ai-v3'', [(''https://cdn.jsdelivr.net/npm/marked/marked.min.js'', stale)])]"


definition fresh_install :: sw_state where
  "fresh_install =
     \<lparr>caches = [], skipWaiting_called = False, clients_claimed = False, console = []\<rparr>"

definition after_upgrade :: sw_state where
  "after_upgrade =
     \<lparr>caches =
        [(''neurolocal-v2'', [(''https://app.example/'', stale)]),
         (''offline-ai-v3'', [(''https://app.example/icons/icon-192.png'', stale)]),
         (''mlc-model-cache'', [(''https://huggingface.co/mlc-ai/model.bin'', stale)])],
      skipWaiting_called = True, clients_claimed = False, console = []\<rparr>"

section \<open>Activation\<close>

lemma foldl_delete_old:
  "foldl delete_old cs ks = filter (\<lambda>(n, c). n \<notin> set ks \<or> \<not> is_old n) cs"
proof (induction ks arbitrary: cs)
  case Nil
  then show ?case by simp
next
  case (Cons k ks)
  show ?case
  proof (cases "is_old k")
    case True
    have "foldl delete_old cs (k # ks) = foldl delete_old (AList.delete k cs) ks"
      using True by (simp add: delete_old_def caches_delete_def)
    also have "\<dots> = filter (\<lambda>(n, c). n \<notin> set ks \<or> \<not> is_old n) (AList.delete k cs)"
      by (rule Cons.IH)
    also have "\<dots> = filter (\<lambda>(n, c). n \<notin> set (k # ks) \<or> \<not> is_old n) cs"
      using True by (auto simp: AList.delete_eq intro!: filter_cong)
    finally show ?thesis .
  next
    case False
    have "foldl delete_old cs (k # ks) = foldl delete_old cs ks"
      using False by (simp add: delete_old_def)
    also have "\<dots> = filter (\<lambda>(n, c). n \<notin> set ks \<or> \<not> is_old n) cs"
      by (rule Cons.IH)
    also have "\<dots> = filter (\<lambda>(n, c). n \<notin> set (k # ks) \<or> \<not> is_old n) cs"
      using False by (auto intro!: filter_cong)
    finally show ?thesis .
  qed
qed

lemma caches_activate:
  "caches (activate st) = filter (\<lambda>(n, c). \<not> is_old n) (caches st)"
proof -
  have "caches (activate st) = foldl delete_old (caches st) (map fst (caches st))"
    by (simp add: activate_def caches_keys_def Let_def)
  also have "\<dots> = filter (\<lambda>(n, c). n \<notin> set (map fst (caches st)) \<or> \<not> is_old n) (caches st)"
    by (rule foldl_delete_old)
  also have "\<dots> = filter (\<lambda>(n, c). \<not> is_old n) (caches st)"
    by (rule filter_cong) force+
  finally show ?thesis .
qed

lemma map_of_filter_key:
  "P k \<Longrightarrow> map_of (filter (\<lambda>(n, c). P n) xs) k = map_of xs k"
  by (induction xs) auto

text \<open>
  What the activate handler leaves, for every cache storage: no generation other than the
  two the handler names, and those two as they were.
\<close>

lemma activate_keeps_handler_names:
  "(\<forall>n. n \<noteq> CACHE_NAME \<and> n \<noteq> CORE_CACHE \<longrightarrow> n \<notin> set (caches_keys (caches (activate st))))
   \<and> (\<forall>n \<in> {CACHE_NAME, CORE_CACHE}.
        map_of (caches (activate st)) n = map_of (caches st) n
        \<and> (n \<in> set (caches_keys (caches (activate st))) \<longleftrightarrow> n \<in> set (caches_keys (caches st))))
   \<and> caches_keys (caches (activate st))
       = filter (\<lambda>n. n = CACHE_NAME \<or> n = CORE_CACHE) (caches_keys (caches st))"
proof (intro conjI allI impI ballI)
  fix n
  assume "n \<noteq> CACHE_NAME \<and> n \<noteq> CORE_CACHE"
  then have "is_old n" by (simp add: is_old_def)
  then show "n \<notin> set (caches_keys (caches (activate st)))"
    by (auto simp: caches_activate caches_keys_def)
next
  fix n
  assume "n \<in> {CACHE_NAME, CORE_CACHE}"
  then have keep: "\<not> is_old n" by (auto simp: is_old_def)
  then show "map_of (caches (activate st)) n = map_of (caches st) n"
    by (simp add: caches_activate map_of_filter_key [where P = "\<lambda>n. \<not> is_old n"])
  show "n \<in> set (caches_keys (caches (activate st))) \<longleftrightarrow> n \<in> set (caches_keys (caches st))"
    using keep by (force simp: caches_activate caches_keys_def)
next
  have "map fst (filter (\<lambda>(n, c). \<not> is_old n) (caches st))
          = filter (\<lambda>n. \<not> is_old n) (map fst (caches st))"
    by (induction "caches st") (auto simp: filter_map comp_def case_prod_unfold)
  then show "caches_keys (caches (activate st))
       = filter (\<lambda>n. n = CACHE_NAME \<or> n = CORE_CACHE) (caches_keys (caches st))"
    by (simp add: caches_activate caches_keys_def is_old_def)
qed

text \<open>
  Claim C3 says that activation deletes every generation whose name is not among the
  configured current cache names and leaves the generations of those names untouched.
  The worker configures three names and the handler keeps two of them. Here the storage
  holds a generation of an older worker and the generations of two configured names, the
  model generation among them: after activation the older one is gone and the
  \<open>CACHE_NAME\<close> generation is as it was, but the model generation, a configured name,
  is gone with its entry.
\<close>

theorem activate_deletes_configured_generation:
  "MODEL_CACHE_name \<in> set configured_cache_names
   \<and> caches_keys (caches after_upgrade)
       = [''neurolocal-v2'', ''offline-ai-v3'', ''mlc-model-cache'']
   \<and> map_of (caches after_upgrade) MODEL_CACHE_name
       = Some [(''https://huggingface.co/mlc-ai/model.bin'', stale)]
   \<and> caches_keys (caches (activate after_upgrade)) = [''offline-ai-v3'']
   \<and> map_of (caches (activate after_upgrade)) MODEL_CACHE_name = None
   \<and> map_of (caches (activate after_upgrade)) CACHE_NAME
       = map_of (caches after_upgrade) CACHE_NAME"
proof -
  have before: "caches_keys (caches after_upgrade)
       = [''neurolocal-v2'', ''offline-ai-v3'', ''mlc-model-cache'']"
    and model: "map_of (caches after_upgrade) MODEL_CACHE_name
       = Some [(''https://huggingface.co/mlc-ai/model.bin'', stale)]"
    by (simp_all add: after_upgrade_def caches_keys_def MODEL_CACHE_name_def)
  from activate_keeps_handler_names [of after_upgrade]
  have after: "caches_keys (caches (activate after_upgrade))
       = filter (\<lambda>n. n = CACHE_NAME \<or> n = CORE_CACHE) (caches_keys (caches after_upgrade))"
    and kept: "map_of (caches (activate after_upgrade)) CACHE_NAME
       = map_of (caches after_upgrade) CACHE_NAME"
    by blast+
  from after have keys: "caches_keys (caches (activate after_upgrade)) = [''offline-ai-v3'']"
    by (simp add: before CACHE_NAME_def CORE_CACHE_def)
  then have "MODEL_CACHE_name \<notin> fst ` set (caches (activate after_upgrade))"
    by (simp add: caches_keys_def MODEL_CACHE_name_def flip: set_map)
  then have gone: "map_of (caches (activate after_upgrade)) MODEL_CACHE_name = None"
    by (simp add: map_of_eq_None_iff)
  have conf: "MODEL_CACHE_name \<in> set configured_cache_names"
    by (simp add: configured_cache_names_def)
  from conf before model keys gone kept show ?thesis
    by blast
qed

text \<open>
  Claim C1 says that activation never deletes the model cache, so that what
  \<^verbatim>\<open>cacheModel\<close> stored before an activation can still be matched after it. The
  activate handler keeps \<open>CACHE_NAME\<close> and \<open>CORE_CACHE\<close> only, and
  \<^verbatim>\<open>MODEL_CACHE_CONFIG.name\<close> is neither. Here the page has a model cached on a
  fresh worker, and the worker is then activated: the entry is there before, and after
  it the generation is gone and no cache matches the URL.
\<close>

theorem activate_deletes_model_cache:
  "cache_match
     (cache_of MODEL_CACHE_name (caches (cacheModel online ''/models/weights.bin'' fresh_install)))
     ''https://app.example/models/weights.bin'' = Some fresh
   \<and> caches_keys (caches (cacheModel online ''/models/weights.bin'' fresh_install))
       = [''mlc-model-cache'']
   \<and> caches_keys (caches (activate (cacheModel online ''/models/weights.bin'' fresh_install))) = []
   \<and> caches_match (caches (activate (cacheModel online ''/models/weights.bin'' fresh_install)))
       ''https://app.example/models/weights.bin'' = None"
  by (simp add: cacheModel_def put_rejection_def online_def fresh_def app_resolve_def
      startsWith_def fresh_install_def
      put_in_def caches_open_def caches_keys_def cache_of_def cache_put_def cache_match_def
      MODEL_CACHE_name_def activate_def delete_old_def is_old_def caches_delete_def
      CACHE_NAME_def CORE_CACHE_def AList.delete_eq)

section \<open>Installation\<close>

lemma fetch_all_Inr:
  "fetch_all plat us = Inr rs \<Longrightarrow>
     map fst rs = map (resolve plat) us \<and> (\<forall>(k, r) \<in> set rs. fetch plat k = Inr r \<and> ok r)"
proof (induction us arbitrary: rs)
  case Nil
  then show ?case by simp
next
  case (Cons u us)
  then show ?case
    by (auto split: sum.splits if_splits option.splits)
qed

lemma fetch_all_succeeds_iff:
  "(\<exists>rs. fetch_all plat us = Inr rs) \<longleftrightarrow> \<not> list_ex (fetch_fails plat) us"
proof (induction us)
  case Nil
  show ?case by simp
next
  case (Cons u us)
  have "(\<exists>rs. fetch_all plat (u # us) = Inr rs)
          \<longleftrightarrow> \<not> fetch_fails plat u \<and> (\<exists>rs. fetch_all plat us = Inr rs)"
    by (auto simp: fetch_fails_def split: sum.splits option.splits)
  with Cons show ?case by simp
qed

lemma map_of_foldl_put:
  "map_of (foldl (\<lambda>c' (k, r). cache_put k r c') c rs) k
     = (case map_of (rev rs) k of Some r \<Rightarrow> Some r | None \<Rightarrow> map_of c k)"
proof (induction rs arbitrary: c)
  case Nil
  then show ?case by simp
next
  case (Cons p rs)
  obtain k' r' where p: "p = (k', r')" by (cases p)
  have "map_of (foldl (\<lambda>c' (k, r). cache_put k r c') c (p # rs)) k
          = map_of (foldl (\<lambda>c' (k, r). cache_put k r c') (cache_put k' r' c) rs) k"
    by (simp add: p)
  also have "\<dots> = (case map_of (rev rs) k of Some r \<Rightarrow> Some r
                      | None \<Rightarrow> map_of (cache_put k' r' c) k)"
    by (rule Cons.IH)
  also have "\<dots> = (case map_of (rev (p # rs)) k of Some r \<Rightarrow> Some r | None \<Rightarrow> map_of c k)"
    by (simp add: p cache_put_def update_conv' map_of_append map_add_def split: option.splits)
  finally show ?case .
qed

lemma addAll_match:
  assumes "addAll plat us c = Inr c'" and "u \<in> set us"
  shows "\<exists>r. cache_match c' (resolve plat u) = Some r \<and> fetch plat (resolve plat u) = Inr r \<and> ok r"
proof -
  from assms(1) obtain rs where rs: "fetch_all plat us = Inr rs"
    and c': "c' = foldl (\<lambda>c' (k, r). cache_put k r c') c rs"
    by (auto simp: addAll_def split: sum.splits)
  from fetch_all_Inr [OF rs] have keys: "map fst rs = map (resolve plat) us"
    and vals: "\<forall>(k, r) \<in> set rs. fetch plat k = Inr r \<and> ok r" by simp_all
  from keys assms(2) have "resolve plat u \<in> fst ` set (rev rs)"
    by (metis image_eqI list.set_map set_rev)
  then obtain r where r: "map_of (rev rs) (resolve plat u) = Some r"
    by (metis domD dom_map_of_conv_image_fst)
  then have "(resolve plat u, r) \<in> set rs"
    by (metis map_of_SomeD set_rev)
  with vals have "fetch plat (resolve plat u) = Inr r \<and> ok r" by auto
  moreover have "cache_match c' (resolve plat u) = Some r"
    by (simp add: cache_match_def c' map_of_foldl_put r)
  ultimately show ?thesis by blast
qed

lemma cache_of_caches_open: "cache_of n (caches_open n cs) = cache_of n cs"
proof (cases "n \<in> set (caches_keys cs)")
  case True
  then show ?thesis by (simp add: caches_open_def)
next
  case False
  then have "map_of cs n = None"
    by (simp add: caches_keys_def map_of_eq_None_iff)
  then show ?thesis
    using False by (simp add: caches_open_def cache_of_def map_add_def)
qed

lemma cache_of_update: "cache_of n (AList.update n c cs) = c"
  by (simp add: cache_of_def update_conv')


lemma install_Inl:
  assumes "addAll plat CORE_ASSETS (cache_of CORE_CACHE (caches st)) = Inl e"
  shows "install plat st = (Inl e, st\<lparr>caches := caches_open CORE_CACHE (caches st)\<rparr>)"
  using assms by (simp add: install_def Let_def cache_of_caches_open)

lemma install_Inr:
  assumes "addAll plat CORE_ASSETS (cache_of CORE_CACHE (caches st)) = Inr c"
  shows "fst (install plat st) = Inr ()"
    and "cache_of CORE_CACHE (caches (snd (install plat st))) = c"
  using assms by (simp_all add: install_def Let_def cache_of_caches_open cache_of_update)

lemma addAll_succeeds_iff:
  "(\<exists>c'. addAll plat us c = Inr c') \<longleftrightarrow> \<not> list_ex (fetch_fails plat) us"
proof -
  have "(\<exists>c'. addAll plat us c = Inr c') \<longleftrightarrow> (\<exists>rs. fetch_all plat us = Inr rs)"
    by (auto simp: addAll_def split: sum.splits)
  then show ?thesis by (simp add: fetch_all_succeeds_iff)
qed

text \<open>
  Claim C2. The install handler succeeds exactly when every manifest URL is fetched with
  an ok response that the cache accepts, and then the core generation answers a match for every manifest URL
  with the response fetched for it. When the fetch of any one manifest URL fails, the
  handler fails as a whole: the storage is what it was (but for an empty core generation
  opened if there was none), the entries of the core generation are unchanged, the
  worker has not asked to skip waiting, and the host discards it without activating.
\<close>

theorem install_all_or_nothing:
  "(fst (install plat st) = Inr () \<longleftrightarrow> \<not> list_ex (fetch_fails plat) CORE_ASSETS)
   \<and> (fst (install plat st) = Inr () \<longrightarrow>
        (\<forall>u \<in> set CORE_ASSETS. \<exists>r.
           cache_match (cache_of CORE_CACHE (caches (snd (install plat st)))) (resolve plat u)
             = Some r
           \<and> fetch plat (resolve plat u) = Inr r))
   \<and> (u \<in> set CORE_ASSETS \<and> fetch_fails plat u \<longrightarrow>
        (\<exists>e. fst (install plat st) = Inl e)
        \<and> caches (snd (install plat st)) = caches_open CORE_CACHE (caches st)
        \<and> cache_of CORE_CACHE (caches (snd (install plat st))) = cache_of CORE_CACHE (caches st)
        \<and> skipWaiting_called (snd (install plat st)) = skipWaiting_called st
        \<and> install_then_activate plat st = (Redundant, snd (install plat st)))"
proof (cases "addAll plat CORE_ASSETS (cache_of CORE_CACHE (caches st))")
  case (Inl e)
  then have fails: "list_ex (fetch_fails plat) CORE_ASSETS"
    using addAll_succeeds_iff [of plat CORE_ASSETS "cache_of CORE_CACHE (caches st)"] by auto
  have inst: "install plat st = (Inl e, st\<lparr>caches := caches_open CORE_CACHE (caches st)\<rparr>)"
    by (rule install_Inl [OF Inl])
  show ?thesis
    using fails by (simp add: inst install_then_activate_def cache_of_caches_open)
next
  case (Inr c)
  then have succeeds: "\<not> list_ex (fetch_fails plat) CORE_ASSETS"
    using addAll_succeeds_iff [of plat CORE_ASSETS "cache_of CORE_CACHE (caches st)"] by auto
  have res: "fst (install plat st) = Inr ()"
    and core: "cache_of CORE_CACHE (caches (snd (install plat st))) = c"
    by (rule install_Inr [OF Inr])+
  have all: "\<forall>u \<in> set CORE_ASSETS. \<exists>r.
      cache_match c (resolve plat u) = Some r \<and> fetch plat (resolve plat u) = Inr r"
    using addAll_match [OF Inr] by blast
  have none: "\<not> (u \<in> set CORE_ASSETS \<and> fetch_fails plat u)"
    using succeeds by (auto simp: list_ex_iff)
  show ?thesis
    using succeeds all none by (simp add: res core)
qed

theorem install_all_or_nothing_witness:
  "fst (install online fresh_install) = Inr ()
   \<and> (\<exists>r. cache_match (cache_of CORE_CACHE (caches (snd (install online fresh_install))))
             ''https://app.example/index.html'' = Some r
          \<and> fetch online ''https://app.example/index.html'' = Inr r)
   \<and> (\<exists>e. fst (install one_missing fresh_install) = Inl e)
   \<and> caches (snd (install one_missing fresh_install)) = [(''offline-ai-core-v1'', [])]
   \<and> install_then_activate one_missing fresh_install
       = (Redundant, snd (install one_missing fresh_install))"
proof -
  have up: "\<not> list_ex (fetch_fails online) CORE_ASSETS"
    by (simp add: fetch_fails_def put_rejection_def online_def fresh_def ok_def CORE_ASSETS_def)
  have idx: "''/index.html'' \<in> set CORE_ASSETS"
    by (simp add: CORE_ASSETS_def)
  have app: "''/app.js'' \<in> set CORE_ASSETS \<and> fetch_fails one_missing ''/app.js''"
    by (simp add: CORE_ASSETS_def fetch_fails_def one_missing_def app_resolve_def
        startsWith_def not_found_def ok_def)
  have r: "resolve online ''/index.html'' = ''https://app.example/index.html''"
    by (simp add: online_def app_resolve_def startsWith_def)
  from install_all_or_nothing [of online fresh_install] up
  have ok1: "fst (install online fresh_install) = Inr ()"
    and "\<forall>u \<in> set CORE_ASSETS. \<exists>r.
           cache_match (cache_of CORE_CACHE (caches (snd (install online fresh_install))))
             (resolve online u) = Some r
           \<and> fetch online (resolve online u) = Inr r"
    by simp_all
  with idx r have ok2: "\<exists>r.
       cache_match (cache_of CORE_CACHE (caches (snd (install online fresh_install))))
         ''https://app.example/index.html'' = Some r
       \<and> fetch online ''https://app.example/index.html'' = Inr r"
    by force
  from install_all_or_nothing [of one_missing fresh_install "''/app.js''"] app
  have bad: "(\<exists>e. fst (install one_missing fresh_install) = Inl e)"
    "caches (snd (install one_missing fresh_install)) = caches_open CORE_CACHE (caches fresh_install)"
    "install_then_activate one_missing fresh_install
       = (Redundant, snd (install one_missing fresh_install))"
    by simp_all
  have "caches_open CORE_CACHE (caches fresh_install) = [(''offline-ai-core-v1'', [])]"
    by (simp add: caches_open_def fresh_install_def caches_keys_def CORE_CACHE_def)
  with ok1 ok2 bad show ?thesis by simp
qed

section \<open>Facts about the cache storage\<close>


lemma caches_match_None_iff:
  "caches_match cs k = None \<longleftrightarrow> (\<forall>(n, c) \<in> set cs. cache_match c k = None)"
  by (induction cs) (auto split: option.splits)

lemma caches_match_append:
  "caches_match (cs @ cs') k
     = (case caches_match cs k of Some r \<Rightarrow> Some r | None \<Rightarrow> caches_match cs' k)"
  by (induction cs) (auto split: option.splits)

lemma caches_match_caches_open: "caches_match (caches_open n cs) k = caches_match cs k"
  by (simp add: caches_open_def caches_match_append cache_match_def split: option.splits)

lemma cache_of_put_in:
  "cache_of n (put_in n k r cs) = cache_put k r (cache_of n cs)"
  by (simp add: put_in_def Let_def cache_of_update cache_of_caches_open)

lemma cache_match_put_in: "cache_match (cache_of n (put_in n k r cs)) k = Some r"
  by (simp add: cache_of_put_in cache_match_def cache_put_def update_conv')


section \<open>Network first\<close>





section \<open>Dispatch\<close>

lemma str_includes_append:
  "prefix sub ys \<Longrightarrow> str_includes (xs @ ys) sub"
proof (induction xs)
  case Nil
  then show ?case by (cases ys) auto
next
  case (Cons x xs)
  then show ?case by simp
qed

lemma href_has_slash: "str_includes (href u) ''/''"
  unfolding href_def by (rule str_includes_append) simp

lemma isCoreAsset_True: "isCoreAsset u"
  by (simp add: isCoreAsset_def CORE_ASSETS_def href_has_slash)

text \<open>
  Claim C10. \<^verbatim>\<open>isCoreAsset\<close> asks whether some manifest entry occurs in the URL's
  \<^verbatim>\<open>href\<close>, and the manifest contains \<^verbatim>\<open>'/'\<close>, which occurs in every
  \<^verbatim>\<open>href\<close>. So the predicate holds of every URL; the listener sends a request to
  \<^verbatim>\<open>networkFirst\<close> when its path contains \<^verbatim>\<open>/api/\<close> and to
  \<^verbatim>\<open>cacheFirst\<close> otherwise, and never reaches the stale-while-revalidate line or the
  final network-first line.
\<close>

theorem core_asset_claims_every_url:
  "isCoreAsset u
   \<and> dispatch_branch req
       = (if str_includes (pathname (url req)) ''/api/'' then ApiNetworkFirst else CoreCacheFirst)
   \<and> dispatch_branch req \<noteq> CdnStaleWhileRevalidate
   \<and> dispatch_branch req \<noteq> ElseNetworkFirst
   \<and> dispatch plat req cs
       = (if str_includes (pathname (url req)) ''/api/'' then networkFirst plat req cs
          else cacheFirst plat req cs)"
proof -
  have core: "isCoreAsset (url req)"
    by (rule isCoreAsset_True)
  then have branch: "dispatch_branch req
       = (if str_includes (pathname (url req)) ''/api/'' then ApiNetworkFirst else CoreCacheFirst)"
    by (simp add: dispatch_branch_def)
  then have run: "dispatch plat req cs
       = (if str_includes (pathname (url req)) ''/api/'' then networkFirst plat req cs
          else cacheFirst plat req cs)"
    by (simp add: dispatch_def)
  from branch have "dispatch_branch req \<noteq> CdnStaleWhileRevalidate"
    and "dispatch_branch req \<noteq> ElseNetworkFirst"
    by simp_all
  with isCoreAsset_True [of u] branch run show ?thesis
    by blast
qed

section \<open>Cache first and stale while revalidate\<close>

lemma icon_key: "request_key icon_request = ''https://app.example/icons/icon-192.png''"
  by (simp add: request_key_def icon_request_def app_url_def href_def)

lemma icon_href: "href (url icon_request) = ''https://app.example/icons/icon-192.png''"
  by (simp add: icon_request_def app_url_def href_def)

lemma cacheFirst_hit:
  "cache_match (cache_of CACHE_NAME cs) (request_key req) = Some cachedResponse \<Longrightarrow>
     cacheFirst plat req cs = (Inl ReferenceError, caches_open CACHE_NAME cs)"
  by (simp add: cacheFirst_def Let_def cache_of_caches_open)

lemma cacheFirst_miss:
  "cache_match (cache_of CACHE_NAME cs) (request_key req) = None \<Longrightarrow>
     cacheFirst plat req cs =
       (case fetch plat (request_key req) of
          Inl e \<Rightarrow> (Inl e, caches_open CACHE_NAME cs)
        | Inr resp \<Rightarrow>
            if ok resp then
              (case put_rejection plat (request_key req) resp of
                 Some e \<Rightarrow> (Inl e, caches_open CACHE_NAME cs)
               | None \<Rightarrow>
                   (Inr resp,
                    put_in CACHE_NAME (request_key req) resp (caches_open CACHE_NAME cs)))
            else (Inr resp, caches_open CACHE_NAME cs))"
  by (simp add: cacheFirst_def Let_def cache_of_caches_open)

text \<open>
  Claim C6 says that \<^verbatim>\<open>cacheFirst\<close> returns the cached response when there is one
  (and refreshes it in the background). Here the \<open>CACHE_NAME\<close> generation holds a
  response for the icon's URL and the network is up: \<^verbatim>\<open>cacheFirst\<close> throws the
  ReferenceError of the unbound \<^verbatim>\<open>event\<close>, the storage is untouched (no refresh),
  and the listener, for this request that does not accept HTML, rejects.
\<close>

theorem cacheFirst_hit_throws:
  "cache_match (cache_of CACHE_NAME (caches after_upgrade)) (href (url icon_request)) = Some stale
   \<and> cacheFirst online icon_request (caches after_upgrade)
       = (Inl ReferenceError, caches after_upgrade)
   \<and> fst (fetch_handler online icon_request after_upgrade) = Rejected ReferenceError"
proof -
  have hit: "cache_match (cache_of CACHE_NAME (caches after_upgrade)) (href (url icon_request))
               = Some stale"
    by (simp add: icon_href after_upgrade_def cache_of_def cache_match_def CACHE_NAME_def)
  have opened: "caches_open CACHE_NAME (caches after_upgrade) = caches after_upgrade"
    by (simp add: after_upgrade_def caches_open_def caches_keys_def CACHE_NAME_def)
  have "cache_match (cache_of CACHE_NAME (caches after_upgrade)) (request_key icon_request)
          = Some stale"
    using hit by (simp add: icon_href icon_key)
  from cacheFirst_hit [OF this, of online]
  have thrown: "cacheFirst online icon_request (caches after_upgrade)
       = (Inl ReferenceError, caches after_upgrade)"
    by (simp add: opened)
  have "fetch_handler online icon_request after_upgrade = respond online icon_request after_upgrade"
    by (simp add: fetch_handler_def icon_href startsWith_def) (simp add: icon_request_def)
  moreover have "dispatch online icon_request (caches after_upgrade)
                   = cacheFirst online icon_request (caches after_upgrade)"
    by (simp add: dispatch_def dispatch_branch_def isCoreAsset_True)
      (simp add: icon_request_def app_url_def)
  moreover have "\<not> accepts_html icon_request"
    by (simp add: accepts_html_def icon_request_def)
  ultimately have "fst (fetch_handler online icon_request after_upgrade) = Rejected ReferenceError"
    by (simp add: respond_def thrown Let_def)
  with hit thrown show ?thesis by simp
qed

text \<open>
  Claim C7 says that a request to a CDN host, unless an earlier rule claims it, gets the
  stale-while-revalidate strategy, which returns the cached copy if there is one and the
  network's answer otherwise, refreshing the cache in the background. Here the request
  is for a script on a CDN host, which is no manifest entry. \<^verbatim>\<open>staleWhileRevalidate\<close>
  throws the ReferenceError of the unbound \<^verbatim>\<open>event\<close>, with the copy cached and
  without it, and stores nothing. The listener does not call it for this request, which
  the core-asset test has claimed for \<^verbatim>\<open>cacheFirst\<close>; with the copy cached, the
  listener rejects.
\<close>

theorem staleWhileRevalidate_throws:
  "cache_match (cache_of CACHE_NAME cdn_cached) (href (url cdn_request)) = Some stale
   \<and> isCDNAsset (url cdn_request)
   \<and> staleWhileRevalidate online cdn_request cdn_cached = (Inl ReferenceError, cdn_cached)
   \<and> fst (staleWhileRevalidate online cdn_request []) = Inl ReferenceError
   \<and> dispatch_branch cdn_request = CoreCacheFirst
   \<and> fst (fetch_handler online cdn_request (fresh_install\<lparr>caches := cdn_cached\<rparr>))
       = Rejected ReferenceError"
  by (simp add: cdn_cached_def cdn_request_def href_def request_key_def
      staleWhileRevalidate_def
      caches_open_def caches_keys_def cache_of_def cache_match_def CACHE_NAME_def
      isCDNAsset_def cdnDomains_def dispatch_branch_def dispatch_def cacheFirst_def
      fetch_handler_def respond_def startsWith_def fresh_install_def
      isCoreAsset_def CORE_ASSETS_def accepts_html_def Let_def)

section \<open>The offline fallback\<close>

lemma networkFirst_fails_storage:
  "fst (networkFirst plat req cs) = Inl e \<Longrightarrow>
     snd (networkFirst plat req cs) = cs
     \<or> snd (networkFirst plat req cs) = caches_open CACHE_NAME cs"
  by (auto simp: networkFirst_def Let_def split: sum.splits option.splits if_splits)

lemma cacheFirst_fails_storage:
  "fst (cacheFirst plat req cs) = Inl e \<Longrightarrow>
     snd (cacheFirst plat req cs) = caches_open CACHE_NAME cs"
  by (auto simp: cacheFirst_def Let_def split: sum.splits option.splits if_splits)

lemma staleWhileRevalidate_storage:
  "snd (staleWhileRevalidate plat req cs) = caches_open CACHE_NAME cs"
  by (simp add: staleWhileRevalidate_def Let_def)

lemma dispatch_fails_caches_match:
  assumes "fst (dispatch plat req cs) = Inl e"
  shows "caches_match (snd (dispatch plat req cs)) k = caches_match cs k"
proof (cases "dispatch_branch req")
  case ApiNetworkFirst
  with assms networkFirst_fails_storage [of plat req cs e] show ?thesis
    by (auto simp: dispatch_def caches_match_caches_open)
next
  case CoreCacheFirst
  with assms show ?thesis
    by (simp add: dispatch_def cacheFirst_fails_storage caches_match_caches_open)
next
  case CdnStaleWhileRevalidate
  with assms show ?thesis
    by (simp add: dispatch_def staleWhileRevalidate_storage caches_match_caches_open)
next
  case ElseNetworkFirst
  with assms networkFirst_fails_storage [of plat req cs e] show ?thesis
    by (auto simp: dispatch_def caches_match_caches_open)
qed

lemma fetch_handler_intercepted:
  "fst (fetch_handler plat req st) \<noteq> NotIntercepted \<Longrightarrow>
     fetch_handler plat req st = respond plat req st"
  by (auto simp: fetch_handler_def split: if_splits)

lemma respond_intercepts: "fst (respond plat req st) \<noteq> NotIntercepted"
  by (auto simp: respond_def Let_def split: prod.splits sum.splits)

text \<open>
  After a successful install and the activation that follows it, some generation holds
  the offline document.
\<close>

lemma cache_of_match_caches_match:
  assumes "cache_match (cache_of n cs) k = Some r"
  shows "\<exists>doc. caches_match cs k = Some doc"
proof (cases "map_of cs n")
  case None
  with assms show ?thesis by (simp add: cache_of_def cache_match_def)
next
  case (Some c)
  then have "(n, c) \<in> set cs" by (rule map_of_SomeD)
  moreover from assms Some have "cache_match c k = Some r" by (simp add: cache_of_def)
  ultimately have "caches_match cs k \<noteq> None"
    unfolding caches_match_None_iff by force
  then show ?thesis by auto
qed

lemma offline_page_after_install:
  assumes "fst (install plat st) = Inr ()"
  shows "\<exists>doc. caches_match (caches (activate (snd (install plat st))))
                 (resolve plat ''/index.html'') = Some doc"
proof -
  from assms obtain c where c: "addAll plat CORE_ASSETS (cache_of CORE_CACHE (caches st)) = Inr c"
    by (cases "addAll plat CORE_ASSETS (cache_of CORE_CACHE (caches st))")
      (simp_all add: install_Inl)
  have "''/index.html'' \<in> set CORE_ASSETS" by (simp add: CORE_ASSETS_def)
  with addAll_match [OF c] obtain r where r: "cache_match c (resolve plat ''/index.html'') = Some r"
    by blast
  have "\<not> is_old CORE_CACHE" by (simp add: is_old_def)
  then have "map_of (caches (activate (snd (install plat st)))) CORE_CACHE
               = map_of (caches (snd (install plat st))) CORE_CACHE"
    by (simp add: caches_activate map_of_filter_key [where P = "\<lambda>n. \<not> is_old n"])
  then have "cache_of CORE_CACHE (caches (activate (snd (install plat st)))) = c"
    using install_Inr(2) [OF c] by (simp add: cache_of_def)
  with r show ?thesis
    using cache_of_match_caches_match by blast
qed

text \<open>
  Claim C8. Take a request the listener answers, whose strategy ends in an error. If the
  request accepts HTML, the listener's promise resolves to what
  \<^verbatim>\<open>caches.match('/index.html')\<close> finds in the storage as it was before the request:
  the cached offline document, when a generation holds it, and one does in the state a
  successful install and its activation leave. If the request does not accept HTML, the
  promise rejects with the strategy's error.
\<close>

theorem offline_fallback:
  "fst (fetch_handler plat req st) \<noteq> NotIntercepted
   \<and> fst (dispatch plat req (caches st)) = Inl e \<longrightarrow>
     (accepts_html req \<longrightarrow>
        fst (fetch_handler plat req st)
          = Resolved (caches_match (caches st) (resolve plat ''/index.html'')))
     \<and> (accepts_html req \<and> caches_match (caches st) (resolve plat ''/index.html'') = Some doc \<longrightarrow>
          fst (fetch_handler plat req st) = Resolved (Some doc))
     \<and> (accepts_html req \<and> fst (install plat' st0) = Inr () \<and> resolve plat' = resolve plat
          \<and> st = activate (snd (install plat' st0)) \<longrightarrow>
          (\<exists>d. fst (fetch_handler plat req st) = Resolved (Some d)))
     \<and> (\<not> accepts_html req \<longrightarrow> fst (fetch_handler plat req st) = Rejected e)"
proof (intro impI)
  assume a: "fst (fetch_handler plat req st) \<noteq> NotIntercepted
             \<and> fst (dispatch plat req (caches st)) = Inl e"
  then have h: "fetch_handler plat req st = respond plat req st"
    using fetch_handler_intercepted by blast
  obtain cs where d: "dispatch plat req (caches st) = (Inl e, cs)"
    using a by (cases "dispatch plat req (caches st)") simp
  have m: "caches_match cs (resolve plat ''/index.html'')
             = caches_match (caches st) (resolve plat ''/index.html'')"
    using dispatch_fails_caches_match [of plat req "caches st" e] d by simp
  have html: "accepts_html req \<longrightarrow>
        fst (fetch_handler plat req st)
          = Resolved (caches_match (caches st) (resolve plat ''/index.html''))"
    by (simp add: h respond_def d m Let_def)
  have other: "\<not> accepts_html req \<longrightarrow> fst (fetch_handler plat req st) = Rejected e"
    by (simp add: h respond_def d m Let_def)
  have installed: "accepts_html req \<and> fst (install plat' st0) = Inr () \<and> resolve plat' = resolve plat
          \<and> st = activate (snd (install plat' st0)) \<longrightarrow>
          (\<exists>d. fst (fetch_handler plat req st) = Resolved (Some d))"
  proof
    assume b: "accepts_html req \<and> fst (install plat' st0) = Inr () \<and> resolve plat' = resolve plat
          \<and> st = activate (snd (install plat' st0))"
    then obtain d where "caches_match (caches st) (resolve plat ''/index.html'') = Some d"
      using offline_page_after_install [of plat' st0] by auto
    with b html show "\<exists>d. fst (fetch_handler plat req st) = Resolved (Some d)"
      by simp
  qed
  from html other installed
  show "(accepts_html req \<longrightarrow>
        fst (fetch_handler plat req st)
          = Resolved (caches_match (caches st) (resolve plat ''/index.html'')))
     \<and> (accepts_html req \<and> caches_match (caches st) (resolve plat ''/index.html'') = Some doc \<longrightarrow>
          fst (fetch_handler plat req st) = Resolved (Some doc))
     \<and> (accepts_html req \<and> fst (install plat' st0) = Inr () \<and> resolve plat' = resolve plat
          \<and> st = activate (snd (install plat' st0)) \<longrightarrow>
          (\<exists>d. fst (fetch_handler plat req st) = Resolved (Some d)))
     \<and> (\<not> accepts_html req \<longrightarrow> fst (fetch_handler plat req st) = Rejected e)"
    by simp
qed

lemma installed_caches:
  "caches_match (caches (snd (install online fresh_install))) ''https://app.example/index.html''
     = Some fresh"
  by (simp add: install_def Let_def caches_open_def caches_keys_def fresh_install_def
      cache_of_def addAll_def CORE_ASSETS_def online_def app_resolve_def startsWith_def
      fresh_def ok_def put_rejection_def cache_put_def cache_match_def CORE_CACHE_def)


lemmas sample_defs =
  online_def offline_def missing_def ranged_def app_resolve_def fresh_def stale_def
  not_found_def partial_content_def
  app_url_def page_request_def api_request_def icon_request_def post_request_def
  weights_request_def cdn_request_def fresh_install_def after_upgrade_def

lemmas storage_defs =
  caches_open_def caches_keys_def cache_of_def cache_put_def cache_match_def put_in_def
  CACHE_NAME_def CORE_CACHE_def MODEL_CACHE_name_def

theorem offline_fallback_witness:
  "fst (install_then_activate online fresh_install) = Activated
   \<and> fst (fetch_handler offline page_request (snd (install_then_activate online fresh_install)))
     = Resolved (Some fresh)
   \<and> fst (fetch_handler offline icon_request (snd (install_then_activate online fresh_install)))
       = Rejected TypeError"
proof -
  let ?st = "snd (install_then_activate online fresh_install)"
  have inst: "caches (snd (install online fresh_install)) =
     [(''offline-ai-core-v1'', cache_of CORE_CACHE (caches (snd (install online fresh_install))))]"
    and res: "fst (install online fresh_install) = Inr ()"
    by (simp_all add: install_def Let_def addAll_def CORE_ASSETS_def sample_defs storage_defs
        startsWith_def ok_def put_rejection_def)
  have st: "?st = activate (snd (install online fresh_install))"
    and act: "fst (install_then_activate online fresh_install) = Activated"
    using res by (auto simp: install_then_activate_def split: prod.splits sum.splits)
  have cs: "caches ?st = caches (snd (install online fresh_install))"
    unfolding st caches_activate by (subst (1 2) inst) (simp add: is_old_def CORE_CACHE_def)
  have page: "fst (fetch_handler offline page_request ?st) \<noteq> NotIntercepted"
    by (simp add: fetch_handler_def respond_intercepts page_request_def app_url_def href_def
        startsWith_def)
  have icon: "fst (fetch_handler offline icon_request ?st) \<noteq> NotIntercepted"
    by (simp add: fetch_handler_def respond_intercepts icon_request_def app_url_def href_def
        startsWith_def)
  have runtime: "cache_of CACHE_NAME (caches ?st) = []"
    unfolding cs by (subst inst) (simp add: storage_defs)
  have down: "fetch offline k = Inl TypeError" for k
    by (simp add: offline_def)
  have "cache_match (cache_of CACHE_NAME (caches ?st)) (request_key page_request) = None"
    by (simp add: runtime cache_match_def)
  from cacheFirst_miss [OF this, of offline]
  have d1: "fst (dispatch offline page_request (caches ?st)) = Inl TypeError"
    by (simp add: dispatch_def dispatch_branch_def isCoreAsset_True down)
      (simp add: page_request_def app_url_def)
  have "cache_match (cache_of CACHE_NAME (caches ?st)) (request_key icon_request) = None"
    by (simp add: runtime cache_match_def)
  from cacheFirst_miss [OF this, of offline]
  have d2: "fst (dispatch offline icon_request (caches ?st)) = Inl TypeError"
    by (simp add: dispatch_def dispatch_branch_def isCoreAsset_True down)
      (simp add: icon_request_def app_url_def)
  have html: "accepts_html page_request" and image: "\<not> accepts_html icon_request"
    by (simp_all add: accepts_html_def page_request_def icon_request_def)
  have doc: "caches_match (caches ?st) (resolve offline ''/index.html'') = Some fresh"
    unfolding cs using installed_caches by (simp add: offline_def app_resolve_def startsWith_def)
  from offline_fallback [where plat = offline and req = page_request and st = "?st"
      and e = TypeError and doc = fresh] page d1 html doc
  have r1: "fst (fetch_handler offline page_request ?st) = Resolved (Some fresh)"
    by blast
  from offline_fallback [where plat = offline and req = icon_request and st = "?st"
      and e = TypeError] icon d2 image
  have r2: "fst (fetch_handler offline icon_request ?st) = Rejected TypeError"
    by blast
  from act r1 r2 show ?thesis by blast
qed

section \<open>Caching a model on demand\<close>

lemma map_of_update_other: "n \<noteq> m \<Longrightarrow> map_of (AList.update m c cs) n = map_of cs n"
  by (simp add: update_conv')

lemma map_of_caches_open_other: "n \<noteq> m \<Longrightarrow> map_of (caches_open m cs) n = map_of cs n"
  by (auto simp: caches_open_def map_add_def split: option.splits)

lemma map_of_put_in_other: "n \<noteq> m \<Longrightarrow> map_of (put_in m k r cs) n = map_of cs n"
  by (simp add: put_in_def Let_def map_of_update_other map_of_caches_open_other)

text \<open>
  Claim C9, amended. On a \<^verbatim>\<open>CACHE_MODEL\<close> message the worker runs
  \<^verbatim>\<open>cacheModel\<close> on the message's URL, which fetches the URL first. When the fetch
  rejects, the worker logs the failure and changes nothing else: the cache storage is
  the same. When the fetch resolves, the model generation is opened (created empty if
  there was none) and the response is put under the URL. If the cache accepts the put,
  the response is stored under that URL, the other entries of the model generation and
  every other generation are as before. If the cache refuses the put (as it does for a
  206), the worker logs the failure and stores nothing: every entry of every generation is
  as before, but the model generation now exists.
\<close>

theorem cacheModel_stores_or_logs:
  "(fetch plat (resolve plat u) = Inl e \<longrightarrow>
      cacheModel plat u st = st\<lparr>console := console st @ [''[SW] Failed to cache model'']\<rparr>
      \<and> caches (cacheModel plat u st) = caches st)
   \<and> (fetch plat (resolve plat u) = Inr resp
        \<and> put_rejection plat (resolve plat u) resp = None \<longrightarrow>
        caches (cacheModel plat u st)
          = put_in MODEL_CACHE_name (resolve plat u) resp (caches st)
        \<and> cache_match (cache_of MODEL_CACHE_name (caches (cacheModel plat u st)))
             (resolve plat u) = Some resp
        \<and> (\<forall>k. k \<noteq> resolve plat u \<longrightarrow>
              cache_match (cache_of MODEL_CACHE_name (caches (cacheModel plat u st))) k
                = cache_match (cache_of MODEL_CACHE_name (caches st)) k)
        \<and> (\<forall>n. n \<noteq> MODEL_CACHE_name \<longrightarrow>
              map_of (caches (cacheModel plat u st)) n = map_of (caches st) n))
   \<and> (fetch plat (resolve plat u) = Inr resp
        \<and> put_rejection plat (resolve plat u) resp = Some e' \<longrightarrow>
        cacheModel plat u st
          = st\<lparr>caches := caches_open MODEL_CACHE_name (caches st),
               console := console st @ [''[SW] Failed to cache model'']\<rparr>
        \<and> cache_of MODEL_CACHE_name (caches (cacheModel plat u st))
            = cache_of MODEL_CACHE_name (caches st)
        \<and> (\<forall>n. n \<noteq> MODEL_CACHE_name \<longrightarrow>
              map_of (caches (cacheModel plat u st)) n = map_of (caches st) n)
        \<and> (\<forall>k. caches_match (caches (cacheModel plat u st)) k = caches_match (caches st) k))
   \<and> message_handler plat (Some \<lparr>msg_type = ''CACHE_MODEL'', msg_url = u\<rparr>) st
       = cacheModel plat u st"
proof (intro conjI impI allI)
  assume down: "fetch plat (resolve plat u) = Inl e"
  then show "cacheModel plat u st = st\<lparr>console := console st @ [''[SW] Failed to cache model'']\<rparr>"
    by (simp add: cacheModel_def)
  then show "caches (cacheModel plat u st) = caches st"
    by simp
next
  assume up: "fetch plat (resolve plat u) = Inr resp
        \<and> put_rejection plat (resolve plat u) resp = None"
  then show stored: "caches (cacheModel plat u st)
        = put_in MODEL_CACHE_name (resolve plat u) resp (caches st)"
    by (simp add: cacheModel_def)
  show "cache_match (cache_of MODEL_CACHE_name (caches (cacheModel plat u st))) (resolve plat u)
          = Some resp"
    by (simp add: stored cache_match_put_in)
  fix k
  assume "k \<noteq> resolve plat u"
  then show "cache_match (cache_of MODEL_CACHE_name (caches (cacheModel plat u st))) k
              = cache_match (cache_of MODEL_CACHE_name (caches st)) k"
    by (simp add: stored cache_of_put_in cache_match_def cache_put_def update_conv')
next
  fix n
  assume "fetch plat (resolve plat u) = Inr resp
        \<and> put_rejection plat (resolve plat u) resp = None" and "n \<noteq> MODEL_CACHE_name"
  then show "map_of (caches (cacheModel plat u st)) n = map_of (caches st) n"
    by (simp add: cacheModel_def map_of_put_in_other)
next
  assume refused: "fetch plat (resolve plat u) = Inr resp
        \<and> put_rejection plat (resolve plat u) resp = Some e'"
  then show opened: "cacheModel plat u st
          = st\<lparr>caches := caches_open MODEL_CACHE_name (caches st),
               console := console st @ [''[SW] Failed to cache model'']\<rparr>"
    by (simp add: cacheModel_def)
  show "cache_of MODEL_CACHE_name (caches (cacheModel plat u st))
            = cache_of MODEL_CACHE_name (caches st)"
    by (simp add: opened cache_of_caches_open)
  fix k
  show "caches_match (caches (cacheModel plat u st)) k = caches_match (caches st) k"
    by (simp add: opened caches_match_caches_open)
next
  fix n
  assume "fetch plat (resolve plat u) = Inr resp
        \<and> put_rejection plat (resolve plat u) resp = Some e'" and "n \<noteq> MODEL_CACHE_name"
  then show "map_of (caches (cacheModel plat u st)) n = map_of (caches st) n"
    by (simp add: cacheModel_def map_of_caches_open_other)
next
  show "message_handler plat (Some \<lparr>msg_type = ''CACHE_MODEL'', msg_url = u\<rparr>) st
       = cacheModel plat u st"
    by (simp add: message_handler_def)
qed

theorem cacheModel_stores_or_logs_witness:
  "caches (cacheModel online ''/models/weights.bin'' after_upgrade)
     = put_in MODEL_CACHE_name ''https://app.example/models/weights.bin'' fresh
         (caches after_upgrade)
   \<and> cache_match
        (cache_of MODEL_CACHE_name (caches (cacheModel online ''/models/weights.bin'' after_upgrade)))
        ''https://app.example/models/weights.bin'' = Some fresh
   \<and> map_of (caches (cacheModel online ''/models/weights.bin'' after_upgrade)) CACHE_NAME
       = map_of (caches after_upgrade) CACHE_NAME
   \<and> caches (cacheModel offline ''/models/weights.bin'' after_upgrade) = caches after_upgrade
   \<and> console (cacheModel offline ''/models/weights.bin'' after_upgrade)
       = [''[SW] Failed to cache model'']
   \<and> cacheModel ranged ''/models/weights.bin'' fresh_install
       = fresh_install\<lparr>caches := [(''mlc-model-cache'', [])],
                        console := [''[SW] Failed to cache model'']\<rparr>"
proof -
  have up: "fetch online (resolve online ''/models/weights.bin'') = Inr fresh
      \<and> put_rejection online (resolve online ''/models/weights.bin'') fresh = None"
    and down: "fetch offline (resolve offline ''/models/weights.bin'') = Inl TypeError"
    and part: "fetch ranged (resolve ranged ''/models/weights.bin'') = Inr partial_content
      \<and> put_rejection ranged (resolve ranged ''/models/weights.bin'') partial_content
          = Some TypeError"
    by (simp_all add: online_def offline_def ranged_def fresh_def partial_content_def
        put_rejection_def)
  have r: "resolve online ''/models/weights.bin'' = ''https://app.example/models/weights.bin''"
    by (simp add: online_def app_resolve_def startsWith_def)
  have ne: "CACHE_NAME \<noteq> MODEL_CACHE_name"
    by (simp add: CACHE_NAME_def MODEL_CACHE_name_def)
  from cacheModel_stores_or_logs [where plat = online and u = "''/models/weights.bin''"
      and resp = fresh and st = after_upgrade] up ne
  have a: "caches (cacheModel online ''/models/weights.bin'' after_upgrade)
        = put_in MODEL_CACHE_name (resolve online ''/models/weights.bin'') fresh
            (caches after_upgrade)"
    and b: "cache_match
        (cache_of MODEL_CACHE_name (caches (cacheModel online ''/models/weights.bin'' after_upgrade)))
        (resolve online ''/models/weights.bin'') = Some fresh"
    and c: "map_of (caches (cacheModel online ''/models/weights.bin'' after_upgrade)) CACHE_NAME
       = map_of (caches after_upgrade) CACHE_NAME"
    by blast+
  from cacheModel_stores_or_logs [where plat = offline and u = "''/models/weights.bin''"
      and st = after_upgrade and e = TypeError] down
  have d: "cacheModel offline ''/models/weights.bin'' after_upgrade
             = after_upgrade\<lparr>console := console after_upgrade @ [''[SW] Failed to cache model'']\<rparr>"
    by blast
  have e: "caches (cacheModel offline ''/models/weights.bin'' after_upgrade) = caches after_upgrade"
    and f: "console (cacheModel offline ''/models/weights.bin'' after_upgrade)
       = [''[SW] Failed to cache model'']"
    unfolding d by (simp_all add: after_upgrade_def)
  from cacheModel_stores_or_logs [where plat = ranged and u = "''/models/weights.bin''"
      and resp = partial_content and st = fresh_install and e' = TypeError] part
  have g: "cacheModel ranged ''/models/weights.bin'' fresh_install
          = fresh_install\<lparr>caches := caches_open MODEL_CACHE_name (caches fresh_install),
               console := console fresh_install @ [''[SW] Failed to cache model'']\<rparr>"
    by blast
  have h: "cacheModel ranged ''/models/weights.bin'' fresh_install
       = fresh_install\<lparr>caches := [(''mlc-model-cache'', [])],
                        console := [''[SW] Failed to cache model'']\<rparr>"
    unfolding g
    by (simp add: fresh_install_def caches_open_def caches_keys_def MODEL_CACHE_name_def)
  from a b c e f h show ?thesis
    by (simp add: r)
qed

text \<open>
  Claim C9 as it is worded: a successful fetch is stored, and a failure leaves every
  generation unchanged. Here, on a storage with no generation, the fetch resolves (to a
  206) and the cache refuses the put: nothing is stored under the URL, the failure is
  logged, and the storage is not what it was, since it now has an empty model generation.
\<close>

theorem cacheModel_refused_counterexample:
  "fetch ranged (resolve ranged ''/models/weights.bin'') = Inr partial_content
   \<and> caches_match (caches (cacheModel ranged ''/models/weights.bin'' fresh_install))
        (resolve ranged ''/models/weights.bin'') = None
   \<and> console (cacheModel ranged ''/models/weights.bin'' fresh_install)
       = [''[SW] Failed to cache model'']
   \<and> caches_keys (caches fresh_install) = []
   \<and> caches_keys (caches (cacheModel ranged ''/models/weights.bin'' fresh_install))
       = [''mlc-model-cache'']"
  by (simp add: cacheModel_def ranged_def partial_content_def put_rejection_def
      fresh_install_def caches_open_def caches_keys_def cache_match_def MODEL_CACHE_name_def)

section \<open>Bypass\<close>

text \<open>
  Claim C4 says that a request is bypassed when its host is a model host or its path ends
  in \<^verbatim>\<open>.bin\<close> or \<^verbatim>\<open>.wasm\<close>, as when its method is not \<^verbatim>\<open>GET\<close>, and that
  a huggingface \<^verbatim>\<open>.bin\<close> URL is bypassed whatever the method and headers. Here the
  request is a \<^verbatim>\<open>GET\<close> for model weights on huggingface, a bypass by the
  specification's rule. The version 3.0.0 listener, which means to skip model requests,
  tests only whether the URL contains \<^verbatim>\<open>/dist/models/\<close>: it answers the request
  through \<^verbatim>\<open>cacheFirst\<close> and stores the weights in the \<open>CACHE_NAME\<close> generation.
  The first worker's listener does stand aside for it. A \<^verbatim>\<open>POST\<close> is bypassed by
  the version 3.0.0 listener, as the claim says.
\<close>

theorem fetch_handler_intercepts_model_weights:
  "spec_bypass weights_request
   \<and> fst (fetch_handler online weights_request fresh_install) = Resolved (Some fresh)
   \<and> cache_match
        (cache_of CACHE_NAME (caches (snd (fetch_handler online weights_request fresh_install))))
        ''https://huggingface.co/mlc-ai/model.bin'' = Some fresh
   \<and> fetch_handler_v1 online weights_request [] = NotIntercepted
   \<and> spec_bypass post_request
   \<and> fetch_handler online post_request fresh_install = (NotIntercepted, fresh_install)"
proof -
  have spec: "spec_bypass weights_request" "spec_bypass post_request"
    by (simp_all add: spec_bypass_def weights_request_def post_request_def endsWith_def)
  have v1: "fetch_handler_v1 online weights_request [] = NotIntercepted"
    by (simp add: fetch_handler_v1_def weights_request_def)
  have post: "fetch_handler online post_request fresh_install = (NotIntercepted, fresh_install)"
    by (simp add: fetch_handler_def post_request_def)
  have key: "request_key weights_request = ''https://huggingface.co/mlc-ai/model.bin''"
    by (simp add: request_key_def weights_request_def href_def)
  have "fetch_handler online weights_request fresh_install
          = respond online weights_request fresh_install"
    by (simp add: fetch_handler_def weights_request_def href_def startsWith_def)
  moreover have "dispatch online weights_request (caches fresh_install)
                   = cacheFirst online weights_request []"
    by (simp add: dispatch_def dispatch_branch_def isCoreAsset_True fresh_install_def)
      (simp add: weights_request_def)
  moreover have "cache_match (cache_of CACHE_NAME []) (request_key weights_request) = None"
    by (simp add: cache_of_def cache_match_def)
  from cacheFirst_miss [OF this, of online]
  have "cacheFirst online weights_request []
          = (Inr fresh, [(''offline-ai-v3'', [(''https://huggingface.co/mlc-ai/model.bin'', fresh)])])"
    by (simp add: key online_def fresh_def ok_def put_rejection_def storage_defs)
  ultimately have v3: "fetch_handler online weights_request fresh_install
      = (Resolved (Some fresh),
         fresh_install\<lparr>caches :=
           [(''offline-ai-v3'', [(''https://huggingface.co/mlc-ai/model.bin'', fresh)])]\<rparr>)"
    by (simp add: respond_def)
  have "fst (fetch_handler online weights_request fresh_install) = Resolved (Some fresh)"
    and "cache_match
        (cache_of CACHE_NAME (caches (snd (fetch_handler online weights_request fresh_install))))
        ''https://huggingface.co/mlc-ai/model.bin'' = Some fresh"
    by (simp_all add: v3 cache_of_def cache_match_def CACHE_NAME_def)
  with spec v1 post show ?thesis
    by blast
qed

end
